theory Spec2Isabelle
  imports Complex_Main
begin

section \<open>Digital twin of a building: sensors, loads, energy balance, assessment\<close>

text \<open>
  A shallow embedding of \<^verbatim>\<open>System_Engineering_Integration/main.py\<close>.

  Conventions of the embedding.
  \<^item> Python floats are read as exact reals: every result below is about the formulas the
    code computes, not about rounding. The one place where rounding changes a value by
    more than rounding error is under \<^verbatim>\<open>int(...)\<close>, which truncates; there the float is
    an input.
  \<^item> A pandas frame is the list of its rows; a column is \<open>map field rows\<close>.
  \<^item> The values returned by \<^verbatim>\<open>np.random.normal\<close>, \<^verbatim>\<open>np.random.poisson\<close> and
    \<^verbatim>\<open>datetime.now()\<close> are inputs: one stream per place of call, indexed by the
    element of the comprehension that makes the call.
  \<^item> A \<^verbatim>\<open>datetime\<close> is its distance from \<^verbatim>\<open>datetime.min\<close> in microseconds, and
    \<^verbatim>\<open>datetime\<close> arithmetic raises \<^verbatim>\<open>OverflowError\<close> out of range, as Python's does.
  \<^item> The objects of the source are records of their attributes; the values assigned in
    \<^verbatim>\<open>__init__\<close> are the constants \<open>\<dots>_init\<close>.
  \<^item> The operations of the engine return \<open>error + result\<close>, \<open>Inl\<close> being a raised
    error. The source has no \<^verbatim>\<open>raise\<close> statement; the only error modelled is the
    \<^verbatim>\<open>OverflowError\<close> of the timestamps, and every other operation is an \<open>Inr\<close>.
  \<^item> The divisors of the source are the attributes \<open>efficiency\<close>, \<open>daylight_threshold\<close>
    and \<open>building_area\<close>, nonzero in every object the source constructs. Python does not
    return 0 on a zero divisor as HOL does, so a theorem about an operation that divides
    assumes its divisor nonzero.
\<close>

subsection \<open>Data\<close>

text \<open>
  Two failure kinds a caller could be asked to distinguish, neither of which the source
  raises, and Python's \<^verbatim>\<open>OverflowError\<close>.
\<close>

datatype error = InvalidArgument | InsufficientData | OverflowError

record stamped =
  timestamp :: int  \<comment> \<open>a \<^verbatim>\<open>datetime\<close>, in microseconds since \<^verbatim>\<open>datetime.min\<close>\<close>

record sensor_row = stamped +
  temperature :: real
  humidity :: real
  light_level :: real
  energy_consumption :: real
  occupancy :: int

record balance_row = stamped +
  hvac_consumption :: real
  lighting_consumption :: real
  base_load :: real
  solar_generation :: real
  total_consumption :: real
  net_energy :: real
  grid_import :: real
  grid_export :: real

record recommendation = stamped +
  recommended_temp :: real
  predicted_load :: real

record HVACSystem =
  target_temp :: real
  efficiency :: real
  power_rating :: real
  status :: string

record LightingSystem =
  fixtures :: real
  power_per_fixture :: real
  daylight_threshold :: real

record SolarPVSystem =
  capacity :: real
  pv_efficiency :: real  \<comment> \<open>\<^verbatim>\<open>self.efficiency\<close> of the PV system; no method reads it\<close>
  area :: real

record BuildingEnergyManagement =
  hvac :: HVACSystem
  lighting :: LightingSystem
  solar :: SolarPVSystem
  grid_connection :: bool

record SustainabilityAssessment =
  ecbc_epi_limit :: real
  building_area :: real
  emission_factor :: real

record ecbc_assessment =
  annual_consumption_kwh :: real
  epi_kwh_m2_year :: real
  ecbc_limit :: real
  compliance :: bool
  savings_potential :: real

record carbon_assessment =
  gross_emissions_kg_co2 :: real
  carbon_offset_kg_co2 :: real
  net_emissions_kg_co2 :: real
  annual_net_emissions_tonnes :: real

text \<open>
  What \<^verbatim>\<open>generate_realistic_data\<close> reads besides its argument: the clock, the random
  draws, and the double that \<^verbatim>\<open>int\<close> truncates in the occupancy of office hours.
\<close>

record draws =
  now :: "nat \<Rightarrow> int"  \<comment> \<open>the k-th \<^verbatim>\<open>datetime.now()\<close>\<close>
  temp_noise :: "nat \<Rightarrow> real"  \<comment> \<open>\<^verbatim>\<open>np.random.normal(0, 1)\<close> for element i\<close>
  humidity_noise :: "nat \<Rightarrow> real"  \<comment> \<open>\<^verbatim>\<open>np.random.normal(0, 3)\<close>\<close>
  light_draw :: "nat \<Rightarrow> real"
    \<comment> \<open>\<^verbatim>\<open>np.random.normal(0, 50)\<close> by day, \<^verbatim>\<open>np.random.normal(10, 5)\<close> by night\<close>
  energy_noise :: "nat \<Rightarrow> real"  \<comment> \<open>\<^verbatim>\<open>np.random.normal(0, 0.5)\<close>\<close>
  poisson_draw :: "nat \<Rightarrow> nat"  \<comment> \<open>\<^verbatim>\<open>np.random.poisson(2)\<close>\<close>
  office_curve :: "nat \<Rightarrow> real"
    \<comment> \<open>the double \<^verbatim>\<open>20*np.sin(np.pi*h/12)\<close> at hour \<open>h\<close> of the day\<close>

subsection \<open>The objects as constructed by the source\<close>

definition HVACSystem_init :: HVACSystem where
  "HVACSystem_init =
     \<lparr>target_temp = 24, efficiency = 0.85, power_rating = 50, status = ''AUTO''\<rparr>"

definition LightingSystem_init :: LightingSystem where
  "LightingSystem_init =
     \<lparr>fixtures = 100, power_per_fixture = 0.04, daylight_threshold = 300\<rparr>"

definition SolarPVSystem_init :: SolarPVSystem where
  "SolarPVSystem_init = \<lparr>capacity = 100, pv_efficiency = 0.18, area = 500\<rparr>"

definition BuildingEnergyManagement_init :: BuildingEnergyManagement where
  "BuildingEnergyManagement_init =
     \<lparr>hvac = HVACSystem_init, lighting = LightingSystem_init,
      solar = SolarPVSystem_init, grid_connection = True\<rparr>"

definition SustainabilityAssessment_init :: SustainabilityAssessment where
  "SustainabilityAssessment_init =
     \<lparr>ecbc_epi_limit = 200, building_area = 5000, emission_factor = 0.82\<rparr>"

subsection \<open>Sensor data\<close>

text \<open>Python's \<^verbatim>\<open>int(x)\<close> on a float: truncation towards zero.\<close>

definition int_py :: "real \<Rightarrow> int" where
  "int_py x = (if 0 \<le> x then \<lfloor>x\<rfloor> else \<lceil>x\<rceil>)"

definition hour_us :: int where
  "hour_us = 3600000000"

text \<open>
  \<^verbatim>\<open>datetime.min\<close> is 0001-01-01 00:00:00 and \<^verbatim>\<open>datetime.max\<close> is the last microsecond
  of 9999-12-31, day 3652059: the datetimes are the microseconds below \<open>datetime_span\<close>.
\<close>

definition datetime_span :: int where
  "datetime_span = 3652059 * 86400 * 1000000"

text \<open>
  \<^verbatim>\<open>timedelta(hours=i)\<close>: the days of the normalised value are \<open>i div 24\<close>, and Python
  raises \<^verbatim>\<open>OverflowError\<close> when their magnitude exceeds 999999999.
\<close>

definition timedelta_hours :: "int \<Rightarrow> error + int" where
  "timedelta_hours i =
     (if i div 24 < - 999999999 \<or> 999999999 < i div 24 then Inl OverflowError
      else Inr (i * hour_us))"

text \<open>\<^verbatim>\<open>t - d\<close> on a datetime and a timedelta: \<^verbatim>\<open>OverflowError\<close> out of range.\<close>

definition datetime_sub :: "int \<Rightarrow> int \<Rightarrow> error + int" where
  "datetime_sub t d =
     (if t - d < 0 \<or> datetime_span \<le> t - d then Inl OverflowError else Inr (t - d))"

text \<open>The k-th evaluation of \<^verbatim>\<open>datetime.now() - timedelta(hours=i)\<close>.\<close>

definition stamp :: "draws \<Rightarrow> nat \<Rightarrow> int \<Rightarrow> error + int" where
  "stamp src k i =
     (case timedelta_hours i of Inl e \<Rightarrow> Inl e | Inr d \<Rightarrow> datetime_sub (now src k) d)"

text \<open>A comprehension whose elements may raise: the first error ends it.\<close>

fun collect :: "(error + 'a) list \<Rightarrow> error + 'a list" where
  "collect [] = Inr []"
| "collect (Inl e # xs) = Inl e"
| "collect (Inr v # xs) = (case collect xs of Inl e \<Rightarrow> Inl e | Inr vs \<Rightarrow> Inr (v # vs))"

text \<open>
  \<^verbatim>\<open>generate_realistic_data(hours)\<close>. \<^verbatim>\<open>range(hours)\<close> is \<open>[0..<nat hours]\<close>,
  empty when \<open>hours \<le> 0\<close>. The k-th timestamp is built from the k-th reading of the
  clock and \<open>i = hours - k\<close>, the k-th element of \<^verbatim>\<open>range(hours, 0, -1)\<close>; the
  timestamps are computed first, before any draw.
\<close>

definition generate_realistic_data :: "draws \<Rightarrow> int \<Rightarrow> error + sensor_row list" where
  "generate_realistic_data src hours =
     (let n = nat hours in
      case collect (map (\<lambda>k. stamp src k (hours - int k)) [0..<n]) of
        Inl e \<Rightarrow> Inl e
      | Inr timestamps \<Rightarrow>
         (let base_temp = 25;
              temp_variation =
                map (\<lambda>i. base_temp + 5 * sin (2 * pi * real i / 24) + temp_noise src i) [0..<n];
              humidity_data =
                map (\<lambda>i. 60 - (temp_variation ! i - base_temp) + humidity_noise src i) [0..<n];
              light_data =
                map (\<lambda>i. if i mod 24 < 12
                         then max 0 (800 * sin (pi * real i / 12) + light_draw src i)
                         else light_draw src i) [0..<n];
              energy_data =
                map (\<lambda>i. 2 + 3 * sin (2 * pi * real i / 24) + energy_noise src i) [0..<n];
              occupancy_data =
                map (\<lambda>i. if 8 \<le> i mod 24 \<and> i mod 24 \<le> 18
                         then max 0 (int_py (office_curve src (i mod 24)))
                         else int (poisson_draw src i)) [0..<n]
          in Inr (map (\<lambda>k. \<lparr>timestamp = timestamps ! k,
                             temperature = temp_variation ! k,
                             humidity = humidity_data ! k,
                             light_level = light_data ! k,
                             energy_consumption = energy_data ! k,
                             occupancy = occupancy_data ! k\<rparr>) [0..<n])))"

text \<open>
  The first \<open>n\<close> readings of the clock are datetimes, none before the first; and every
  timestamp of a horizon is a datetime.
\<close>

definition clock_ok :: "draws \<Rightarrow> nat \<Rightarrow> bool" where
  "clock_ok src n \<longleftrightarrow> (\<forall>k < n. now src 0 \<le> now src k \<and> now src k < datetime_span)"

definition in_range :: "draws \<Rightarrow> int \<Rightarrow> bool" where
  "in_range src hours \<longleftrightarrow>
     (\<forall>k < nat hours. (hours - int k) * hour_us \<le> now src k \<and> now src k < datetime_span)"

subsection \<open>HVAC\<close>

definition calculate_load :: "HVACSystem \<Rightarrow> real \<Rightarrow> int \<Rightarrow> real \<Rightarrow> real" where
  "calculate_load h current_temp occ external_temp =
     (let temp_diff = \<bar>current_temp - target_temp h\<bar>;
          occupancy_load = real_of_int occ * 0.1;
          external_load = (external_temp - target_temp h) * 0.05;
          total_load = (temp_diff * 2 + occupancy_load + external_load) / efficiency h
      in min total_load (power_rating h))"

text \<open>
  \<^verbatim>\<open>optimize_settings\<close> assigns no attribute of the system; the model returns the
  system as the method leaves it, next to the frame of recommendations.
\<close>

definition optimize_settings ::
  "HVACSystem \<Rightarrow> sensor_row list \<Rightarrow> HVACSystem \<times> recommendation list" where
  "optimize_settings h forecast_data =
     (h, map (\<lambda>row.
          (let rec_temp = (if occupancy row = 0 then target_temp h + 2 else target_temp h)
           in \<lparr>timestamp = timestamp row,
               recommended_temp = rec_temp,
               predicted_load = calculate_load h (temperature row) (occupancy row) 30\<rparr>))
        forecast_data)"

subsection \<open>Lighting\<close>

definition calculate_lighting_need :: "LightingSystem \<Rightarrow> real \<Rightarrow> int \<Rightarrow> real" where
  "calculate_lighting_need l ambient_light occ =
     (if occ = 0 then 0
      else if ambient_light < daylight_threshold l
        then (let dimming_factor = 1 - ambient_light / daylight_threshold l
              in fixtures l * power_per_fixture l * dimming_factor)
        else 0)"

definition lighting_energy_consumption :: "LightingSystem \<Rightarrow> sensor_row list \<Rightarrow> real list" where
  "lighting_energy_consumption l sensor_data =
     map (\<lambda>row. calculate_lighting_need l (light_level row) (occupancy row)) sensor_data"

subsection \<open>Solar generation\<close>

definition calculate_generation :: "SolarPVSystem \<Rightarrow> real list \<Rightarrow> real \<Rightarrow> real list" where
  "calculate_generation s light_data weather_factor =
     map (\<lambda>level.
          (let irradiance = min (level * 0.1) 1000;
               power = (irradiance / 1000) * capacity s * weather_factor
           in max 0 power)) light_data"

subsection \<open>Energy balance\<close>

text \<open>
  \<^verbatim>\<open>calculate_energy_balance\<close>. \<open>noise k\<close> is the k-th
  \<^verbatim>\<open>np.random.normal(0, 0.2)\<close> of the base load. The columns are computed as in the
  source and joined by position.
\<close>

definition calculate_energy_balance ::
  "BuildingEnergyManagement \<Rightarrow> sensor_row list \<Rightarrow> (nat \<Rightarrow> real) \<Rightarrow> error + balance_row list" where
  "calculate_energy_balance b sensor_data noise =
     (let hvac_c = map (\<lambda>row. calculate_load (hvac b) (temperature row) (occupancy row) 30)
                     sensor_data;
          lighting_c = lighting_energy_consumption (lighting b) sensor_data;
          base = map (\<lambda>k. 3 + noise k) [0..<length sensor_data];
          solar_g = calculate_generation (solar b) (map light_level sensor_data) 0.9;
          total = map2 (+) (map2 (+) hvac_c lighting_c) base;
          net = map2 (-) total solar_g
      in Inr (map (\<lambda>k. \<lparr>timestamp = timestamp (sensor_data ! k),
                         hvac_consumption = hvac_c ! k,
                         lighting_consumption = lighting_c ! k,
                         base_load = base ! k,
                         solar_generation = solar_g ! k,
                         total_consumption = total ! k,
                         net_energy = net ! k,
                         grid_import = max (net ! k) 0,
                         grid_export = max (- (net ! k)) 0\<rparr>) [0..<length sensor_data]))"

subsection \<open>Sustainability assessment\<close>

definition calculate_epi :: "SustainabilityAssessment \<Rightarrow> real \<Rightarrow> real" where
  "calculate_epi sa annual_consumption = annual_consumption / building_area sa"

definition assess_ecbc_compliance ::
  "SustainabilityAssessment \<Rightarrow> balance_row list \<Rightarrow> error + ecbc_assessment" where
  "assess_ecbc_compliance sa energy_data =
     (let weekly_consumption = sum_list (map total_consumption energy_data);
          annual_consumption = weekly_consumption * 52;
          epi = calculate_epi sa annual_consumption;
          compl = (epi \<le> ecbc_epi_limit sa)
      in Inr \<lparr>annual_consumption_kwh = annual_consumption,
              epi_kwh_m2_year = epi,
              ecbc_limit = ecbc_epi_limit sa,
              compliance = compl,
              savings_potential = max 0 (epi - ecbc_epi_limit sa) * building_area sa\<rparr>)"

definition calculate_carbon_footprint ::
  "SustainabilityAssessment \<Rightarrow> balance_row list \<Rightarrow> error + carbon_assessment" where
  "calculate_carbon_footprint sa energy_data =
     (let net_emissions = sum_list (map grid_import energy_data) * emission_factor sa;
          carbon_offset = sum_list (map grid_export energy_data) * emission_factor sa
      in Inr \<lparr>gross_emissions_kg_co2 = net_emissions,
              carbon_offset_kg_co2 = carbon_offset,
              net_emissions_kg_co2 = net_emissions - carbon_offset,
              annual_net_emissions_tonnes = (net_emissions - carbon_offset) * 52 / 1000\<rparr>)"

subsection \<open>The window of a frame\<close>

text \<open>
  The rows of a frame are one hour apart, so a frame of \<open>n\<close> rows covers \<open>n / 168\<close>
  weeks. The source computes no such quantity; it is defined here to state what the
  assessments do on frames that are not one week long.
\<close>

definition weeks_in_window :: "balance_row list \<Rightarrow> real" where
  "weeks_in_window energy_data = real (length energy_data) / 168"

subsection \<open>Sample inputs\<close>

definition row0 :: sensor_row where
  "row0 = \<lparr>timestamp = 0, temperature = 26, humidity = 58, light_level = 150,
           energy_consumption = 2, occupancy = 10\<rparr>"

definition empty_row :: sensor_row where
  "empty_row = \<lparr>timestamp = 0, temperature = 26, humidity = 58, light_level = 150,
           energy_consumption = 2, occupancy = 0\<rparr>"

text \<open>A balance row with a given total consumption and solar generation.\<close>

definition sample_row :: "real \<Rightarrow> real \<Rightarrow> balance_row" where
  "sample_row consumed solar_g =
     \<lparr>timestamp = 0, hvac_consumption = consumed - 5, lighting_consumption = 2, base_load = 3,
      solar_generation = solar_g, total_consumption = consumed, net_energy = consumed - solar_g,
      grid_import = max (consumed - solar_g) 0, grid_export = max (- (consumed - solar_g)) 0\<rparr>"

definition zero_row :: balance_row where
  "zero_row =
     \<lparr>timestamp = 0, hvac_consumption = 0, lighting_consumption = 0, base_load = 0,
      solar_generation = 0, total_consumption = 0, net_energy = 0,
      grid_import = 0, grid_export = 0\<rparr>"

text \<open>One week at 20000 kWh, two weeks at 10 kW, and a frame importing 500 and exporting 100.\<close>

definition one_week :: "balance_row list" where
  "one_week = replicate 168 (sample_row (2500 / 21) 0)"

definition two_weeks :: "balance_row list" where
  "two_weeks = replicate 336 (sample_row 10 0)"

definition import_export :: "balance_row list" where
  "import_export = replicate 50 (sample_row 10 0) @ replicate 10 (sample_row 10 20)"

text \<open>
  Draws with no noise, a clock that starts at noon of 2026-11-04 and advances by a
  microsecond between two readings, and the doubles of the office curve for the hours 8
  to 18; and the same with one night draw of the light level, at hour 12, below zero.
\<close>

definition calm_draws :: draws where
  "calm_draws = \<lparr>now = (\<lambda>k. 63929390400000000 + int k), temp_noise = (\<lambda>i. 0),
     humidity_noise = (\<lambda>i. 0), light_draw = (\<lambda>i. if i mod 24 < 12 then 0 else 10),
     energy_noise = (\<lambda>i. 0), poisson_draw = (\<lambda>i. 2),
     office_curve = (\<lambda>h. if 8 \<le> h \<and> h \<le> 18
        then [17.320508075688775, 14.142135623730951, 9.999999999999998,
              5.17638090205042, 0.0000000000000024492935982947065, - 5.176380902050416,
              - 9.999999999999995, - 14.142135623730942, - 17.320508075688767,
              - 19.318516525781366, - 20] ! (h - 8)
        else 0)\<rparr>"

definition dark_draws :: draws where
  "dark_draws =
     calm_draws\<lparr>light_draw := (\<lambda>i. if i = 12 then - 1 else light_draw calm_draws i)\<rparr>"

section \<open>Lighting load\<close>

text \<open>
  C7. For ambient light and occupancy that are not negative, the lighting load is 0 when
  the occupancy is 0, whatever the ambient light; it is 0 when the ambient light reaches
  the daylight threshold; otherwise it is
  fixtures * power_per_fixture * (1 - ambient_light / threshold).
\<close>

theorem calculate_lighting_need_cases:
  assumes "0 \<le> ambient_light" and "0 \<le> occ"
  shows "calculate_lighting_need l ambient_light occ =
           (if occ = 0 then 0
            else if daylight_threshold l \<le> ambient_light then 0
            else fixtures l * power_per_fixture l * (1 - ambient_light / daylight_threshold l))"
  by (simp add: calculate_lighting_need_def Let_def)

theorem calculate_lighting_need_cases_witness:
  "(0::real) \<le> 150 \<and> (0::int) \<le> 3 \<and> (0::real) \<le> 450
   \<and> calculate_lighting_need LightingSystem_init 150 3 = 2
   \<and> calculate_lighting_need LightingSystem_init 150 0 = 0
   \<and> calculate_lighting_need LightingSystem_init 450 3 = 0"
  using calculate_lighting_need_cases [of 150 3 LightingSystem_init]
    calculate_lighting_need_cases [of 150 0 LightingSystem_init]
    calculate_lighting_need_cases [of 450 3 LightingSystem_init]
  by (simp add: LightingSystem_init_def)

section \<open>HVAC load\<close>

text \<open>
  With the set-point at 24 and nobody in the building, an outside temperature of 0 gives a
  load of -24/17: the cap at the rated power is the only bound the operation applies.
\<close>

theorem calculate_load_negative_counterexample:
  "calculate_load HVACSystem_init 24 0 0 = - (24 / 17)
   \<and> calculate_load HVACSystem_init 24 0 0 < 0
   \<and> calculate_load HVACSystem_init 24 0 0 \<noteq>
       max 0 (min ((2 * \<bar>24 - 24\<bar> + 0.1 * 0 + 0.05 * (0 - 24)) / 0.85) 50)"
  by (simp add: calculate_load_def HVACSystem_init_def Let_def)

text \<open>
  C6, as amended. With a positive efficiency, the HVAC load is
  (2 * |temperature - set_point| + 0.1 * occupancy + 0.05 * (external_temperature - set_point))
  / efficiency, capped at the rated power from above only. It is never above the rated
  power. With a rated power that is not negative, it is below 0 exactly when the
  numerator is, and so it is never below 0 when the occupancy is not negative and the
  external temperature is at least the set-point.
\<close>

theorem calculate_load_capped_above:
  assumes "0 < efficiency h"
  shows "calculate_load h t occ ext =
           min ((2 * \<bar>t - target_temp h\<bar> + 0.1 * real_of_int occ + 0.05 * (ext - target_temp h))
                / efficiency h) (power_rating h)
     \<and> calculate_load h t occ ext \<le> power_rating h
     \<and> (0 \<le> power_rating h \<longrightarrow>
          (calculate_load h t occ ext < 0 \<longleftrightarrow>
             2 * \<bar>t - target_temp h\<bar> + 0.1 * real_of_int occ + 0.05 * (ext - target_temp h) < 0))
     \<and> (0 \<le> power_rating h \<and> 0 \<le> occ \<and> target_temp h \<le> ext \<longrightarrow>
          0 \<le> calculate_load h t occ ext)"
proof -
  let ?num = "2 * \<bar>t - target_temp h\<bar> + 0.1 * real_of_int occ + 0.05 * (ext - target_temp h)"
  have eq: "calculate_load h t occ ext = min (?num / efficiency h) (power_rating h)"
    by (simp add: calculate_load_def Let_def algebra_simps)
  have sgn: "?num / efficiency h < 0 \<longleftrightarrow> ?num < 0"
    using assms by (simp add: divide_less_0_iff)
  have neg: "0 \<le> power_rating h \<Longrightarrow>
      (min (?num / efficiency h) (power_rating h) < 0 \<longleftrightarrow> ?num < 0)"
    using sgn by (auto simp: min_def)
  have nn: "0 \<le> occ \<Longrightarrow> target_temp h \<le> ext \<Longrightarrow> 0 \<le> ?num"
    by simp
  show ?thesis
    unfolding eq using neg nn by (auto simp: not_less [symmetric] simp del: not_less)
qed

theorem calculate_load_capped_above_witness:
  "0 < efficiency HVACSystem_init \<and> 0 \<le> power_rating HVACSystem_init \<and> (0::int) \<le> 10
   \<and> target_temp HVACSystem_init \<le> 30
   \<and> calculate_load HVACSystem_init 26 10 30 = 106 / 17
   \<and> calculate_load HVACSystem_init 26 10 30 \<le> power_rating HVACSystem_init
   \<and> 0 \<le> calculate_load HVACSystem_init 26 10 30"
proof -
  have e: "0 < efficiency HVACSystem_init" by (simp add: HVACSystem_init_def)
  show ?thesis
    using calculate_load_capped_above [OF e, of 26 10 30]
    by (simp add: HVACSystem_init_def)
qed

section \<open>Energy balance\<close>

text \<open>The frame returned by the aggregator, row by row, in terms of the row it reads.\<close>

lemma energy_balance_explicit:
  "calculate_energy_balance b sensor_data noise =
     Inr (map (\<lambda>k.
       (let row = sensor_data ! k;
          hv = calculate_load (hvac b) (temperature row) (occupancy row) 30;
          li = calculate_lighting_need (lighting b) (light_level row) (occupancy row);
          ba = 3 + noise k;
          so = max 0 (min (light_level row * 0.1) 1000 / 1000 * capacity (solar b) * 0.9)
        in \<lparr>timestamp = timestamp row, hvac_consumption = hv, lighting_consumption = li,
          base_load = ba, solar_generation = so, total_consumption = hv + li + ba,
          net_energy = hv + li + ba - so,
          grid_import = max (hv + li + ba - so) 0,
          grid_export = max (- (hv + li + ba - so)) 0\<rparr>)) [0..<length sensor_data])"
  unfolding calculate_energy_balance_def lighting_energy_consumption_def
    calculate_generation_def Let_def
  by (simp cong: map_cong)

text \<open>
  C1. The aggregator returns one row per observation, and on every row
  total_consumption = hvac + lighting + base load, net_energy = total_consumption - solar
  generation, grid_import = max(net_energy, 0), grid_export = max(-net_energy, 0), and
  grid_import and grid_export are not both nonzero.
\<close>

theorem energy_balance_rows:
  assumes "efficiency (hvac b) \<noteq> 0" and "daylight_threshold (lighting b) \<noteq> 0"
  shows "\<exists>E. calculate_energy_balance b sensor_data noise = Inr E
     \<and> length E = length sensor_data
     \<and> (\<forall>k < length E.
          total_consumption (E ! k) =
            hvac_consumption (E ! k) + lighting_consumption (E ! k) + base_load (E ! k)
        \<and> net_energy (E ! k) = total_consumption (E ! k) - solar_generation (E ! k)
        \<and> grid_import (E ! k) = max (net_energy (E ! k)) 0
        \<and> grid_export (E ! k) = max (- net_energy (E ! k)) 0
        \<and> \<not> (grid_import (E ! k) \<noteq> 0 \<and> grid_export (E ! k) \<noteq> 0))"
  unfolding energy_balance_explicit Let_def
  by (simp add: max_def)

theorem energy_balance_rows_witness:
  "efficiency (hvac BuildingEnergyManagement_init) \<noteq> 0
   \<and> daylight_threshold (lighting BuildingEnergyManagement_init) \<noteq> 0
   \<and> (\<exists>E. calculate_energy_balance BuildingEnergyManagement_init [row0] (\<lambda>k. 0) = Inr E
     \<and> 0 < length E
     \<and> E ! 0 = \<lparr>timestamp = 0, hvac_consumption = 106 / 17, lighting_consumption = 2,
          base_load = 3, solar_generation = 27 / 20, total_consumption = 191 / 17,
          net_energy = 3361 / 340, grid_import = 3361 / 340, grid_export = 0\<rparr>
     \<and> total_consumption (E ! 0) =
            hvac_consumption (E ! 0) + lighting_consumption (E ! 0) + base_load (E ! 0)
     \<and> net_energy (E ! 0) = total_consumption (E ! 0) - solar_generation (E ! 0)
     \<and> grid_import (E ! 0) = max (net_energy (E ! 0)) 0
     \<and> grid_export (E ! 0) = max (- net_energy (E ! 0)) 0
     \<and> \<not> (grid_import (E ! 0) \<noteq> 0 \<and> grid_export (E ! 0) \<noteq> 0))"
proof -
  have e: "efficiency (hvac BuildingEnergyManagement_init) \<noteq> 0"
    by (simp add: BuildingEnergyManagement_init_def HVACSystem_init_def)
  have t: "daylight_threshold (lighting BuildingEnergyManagement_init) \<noteq> 0"
    by (simp add: BuildingEnergyManagement_init_def LightingSystem_init_def)
  obtain E where E: "calculate_energy_balance BuildingEnergyManagement_init [row0] (\<lambda>k. 0) = Inr E"
    and len: "length E = length [row0]"
    and rows: "\<forall>k < length E.
          total_consumption (E ! k) =
            hvac_consumption (E ! k) + lighting_consumption (E ! k) + base_load (E ! k)
        \<and> net_energy (E ! k) = total_consumption (E ! k) - solar_generation (E ! k)
        \<and> grid_import (E ! k) = max (net_energy (E ! k)) 0
        \<and> grid_export (E ! k) = max (- net_energy (E ! k)) 0
        \<and> \<not> (grid_import (E ! k) \<noteq> 0 \<and> grid_export (E ! k) \<noteq> 0)"
    using energy_balance_rows [OF e t, of "[row0]" "\<lambda>k. 0"] by blast
  have pos: "0 < length E" using len by simp
  have "E = projr (calculate_energy_balance BuildingEnergyManagement_init [row0] (\<lambda>k. 0))"
    using E by simp
  then have val: "E ! 0 = \<lparr>timestamp = 0, hvac_consumption = 106 / 17, lighting_consumption = 2,
          base_load = 3, solar_generation = 27 / 20, total_consumption = 191 / 17,
          net_energy = 3361 / 340, grid_import = 3361 / 340, grid_export = 0\<rparr>"
    by (simp add: calculate_energy_balance_def lighting_energy_consumption_def
        calculate_generation_def calculate_load_def calculate_lighting_need_def
        BuildingEnergyManagement_init_def HVACSystem_init_def LightingSystem_init_def
        SolarPVSystem_init_def row0_def Let_def)
  from rows pos have "total_consumption (E ! 0) =
            hvac_consumption (E ! 0) + lighting_consumption (E ! 0) + base_load (E ! 0)
        \<and> net_energy (E ! 0) = total_consumption (E ! 0) - solar_generation (E ! 0)
        \<and> grid_import (E ! 0) = max (net_energy (E ! 0)) 0
        \<and> grid_export (E ! 0) = max (- net_energy (E ! 0)) 0
        \<and> \<not> (grid_import (E ! 0) \<noteq> 0 \<and> grid_export (E ! 0) \<noteq> 0)"
    by blast
  with e t E pos val show ?thesis by blast
qed

section \<open>HVAC optimisation\<close>

text \<open>
  On an unoccupied row at 26 degrees the recommendation is 26, and the load paired with
  it is 86/17, the load at the nominal set-point 24; at the recommended set-point the
  load formula gives 4/17.
\<close>

theorem optimize_settings_load_counterexample:
  "snd (optimize_settings HVACSystem_init [empty_row]) =
     [\<lparr>timestamp = 0, recommended_temp = 26, predicted_load = 86 / 17\<rparr>]
   \<and> calculate_load (HVACSystem_init\<lparr>target_temp := 26\<rparr>)
        (temperature empty_row) (occupancy empty_row) 30 = 4 / 17
   \<and> predicted_load (hd (snd (optimize_settings HVACSystem_init [empty_row]))) \<noteq>
       calculate_load
         (HVACSystem_init\<lparr>target_temp :=
            recommended_temp (hd (snd (optimize_settings HVACSystem_init [empty_row])))\<rparr>)
         (temperature empty_row) (occupancy empty_row) 30"
  by (simp add: optimize_settings_def calculate_load_def HVACSystem_init_def empty_row_def Let_def)

text \<open>
  C9, as amended. For every row of a forecast, the optimisation recommends set_point + 2
  when the occupancy of the row is 0 and the nominal set-point otherwise, and pairs the
  recommendation with the load of the row under the HVAC load formula at the nominal
  set-point. It leaves the system as it found it, so the energy balance computed after it
  is the one computed before it, and the HVAC column of the balance is the load at the
  nominal set-point on every row.
\<close>

theorem optimize_settings_nominal_load:
  assumes "efficiency (hvac b) \<noteq> 0" and "daylight_threshold (lighting b) \<noteq> 0"
  shows "\<exists>recs. optimize_settings (hvac b) forecast_data = (hvac b, recs)
     \<and> length recs = length forecast_data
     \<and> (\<forall>k < length forecast_data.
          timestamp (recs ! k) = timestamp (forecast_data ! k)
        \<and> recommended_temp (recs ! k) =
            (if occupancy (forecast_data ! k) = 0 then target_temp (hvac b) + 2
             else target_temp (hvac b))
        \<and> predicted_load (recs ! k) =
            calculate_load (hvac b) (temperature (forecast_data ! k))
              (occupancy (forecast_data ! k)) 30)
     \<and> calculate_energy_balance (b\<lparr>hvac := fst (optimize_settings (hvac b) forecast_data)\<rparr>)
          sensor_data noise = calculate_energy_balance b sensor_data noise
     \<and> (\<exists>E. calculate_energy_balance b sensor_data noise = Inr E
          \<and> (\<forall>k < length sensor_data. hvac_consumption (E ! k) =
               calculate_load (hvac b) (temperature (sensor_data ! k))
                 (occupancy (sensor_data ! k)) 30))"
proof -
  let ?recs = "snd (optimize_settings (hvac b) forecast_data)"
  let ?E = "projr (calculate_energy_balance b sensor_data noise)"
  have 1: "optimize_settings (hvac b) forecast_data = (hvac b, ?recs)"
    by (simp add: optimize_settings_def)
  have 2: "length ?recs = length forecast_data"
    by (simp add: optimize_settings_def)
  have 3: "timestamp (?recs ! k) = timestamp (forecast_data ! k)
        \<and> recommended_temp (?recs ! k) =
            (if occupancy (forecast_data ! k) = 0 then target_temp (hvac b) + 2
             else target_temp (hvac b))
        \<and> predicted_load (?recs ! k) =
            calculate_load (hvac b) (temperature (forecast_data ! k))
              (occupancy (forecast_data ! k)) 30"
    if "k < length forecast_data" for k
    using that by (simp add: optimize_settings_def Let_def)
  have 4: "b\<lparr>hvac := fst (optimize_settings (hvac b) forecast_data)\<rparr> = b"
    by (simp add: optimize_settings_def)
  have 5: "calculate_energy_balance b sensor_data noise = Inr ?E"
    by (simp add: energy_balance_explicit)
  have 6: "hvac_consumption (?E ! k) =
             calculate_load (hvac b) (temperature (sensor_data ! k))
               (occupancy (sensor_data ! k)) 30"
    if "k < length sensor_data" for k
    using that by (simp add: energy_balance_explicit Let_def)
  show ?thesis
    unfolding 4 using 1 2 3 5 6 by blast
qed

theorem optimize_settings_nominal_load_witness:
  "efficiency (hvac BuildingEnergyManagement_init) \<noteq> 0
   \<and> daylight_threshold (lighting BuildingEnergyManagement_init) \<noteq> 0
   \<and> optimize_settings (hvac BuildingEnergyManagement_init) [empty_row, row0] =
       (hvac BuildingEnergyManagement_init,
        [\<lparr>timestamp = 0, recommended_temp = 26, predicted_load = 86 / 17\<rparr>,
         \<lparr>timestamp = 0, recommended_temp = 24, predicted_load = 106 / 17\<rparr>])
   \<and> calculate_energy_balance
        (BuildingEnergyManagement_init
          \<lparr>hvac := fst (optimize_settings (hvac BuildingEnergyManagement_init)
                         [empty_row, row0])\<rparr>) [empty_row] (\<lambda>k. 0)
       = calculate_energy_balance BuildingEnergyManagement_init [empty_row] (\<lambda>k. 0)
   \<and> (\<exists>E. calculate_energy_balance BuildingEnergyManagement_init [empty_row] (\<lambda>k. 0) = Inr E
        \<and> hvac_consumption (E ! 0) = 86 / 17)"
proof -
  let ?b = BuildingEnergyManagement_init
  have e: "efficiency (hvac ?b) \<noteq> 0"
    by (simp add: BuildingEnergyManagement_init_def HVACSystem_init_def)
  have t: "daylight_threshold (lighting ?b) \<noteq> 0"
    by (simp add: BuildingEnergyManagement_init_def LightingSystem_init_def)
  obtain recs E where
    r: "optimize_settings (hvac ?b) [empty_row, row0] = (hvac ?b, recs)"
    and len: "length recs = length [empty_row, row0]"
    and rows: "\<forall>k < length [empty_row, row0].
          timestamp (recs ! k) = timestamp ([empty_row, row0] ! k)
        \<and> recommended_temp (recs ! k) =
            (if occupancy ([empty_row, row0] ! k) = 0 then target_temp (hvac ?b) + 2
             else target_temp (hvac ?b))
        \<and> predicted_load (recs ! k) =
            calculate_load (hvac ?b) (temperature ([empty_row, row0] ! k))
              (occupancy ([empty_row, row0] ! k)) 30"
    and same: "calculate_energy_balance
        (?b\<lparr>hvac := fst (optimize_settings (hvac ?b) [empty_row, row0])\<rparr>) [empty_row] (\<lambda>k. 0)
       = calculate_energy_balance ?b [empty_row] (\<lambda>k. 0)"
    and E: "calculate_energy_balance ?b [empty_row] (\<lambda>k. 0) = Inr E"
    and hv: "\<forall>k < length [empty_row]. hvac_consumption (E ! k) =
               calculate_load (hvac ?b) (temperature ([empty_row] ! k))
                 (occupancy ([empty_row] ! k)) 30"
    using optimize_settings_nominal_load [OF e t, of "[empty_row, row0]" "[empty_row]" "\<lambda>k. 0"]
    by blast
  have r0: "recs ! 0 = \<lparr>timestamp = 0, recommended_temp = 26, predicted_load = 86 / 17\<rparr>"
    using rows [rule_format, of 0]
    by (simp add: empty_row_def BuildingEnergyManagement_init_def HVACSystem_init_def
        calculate_load_def Let_def)
  have r1: "recs ! 1 = \<lparr>timestamp = 0, recommended_temp = 24, predicted_load = 106 / 17\<rparr>"
    using rows [rule_format, of 1]
    by (simp add: row0_def BuildingEnergyManagement_init_def HVACSystem_init_def
        calculate_load_def Let_def)
  have "recs = [recs ! 0, recs ! 1]"
    using len by (cases recs; cases "tl recs") auto
  with r0 r1 have recs: "recs =
        [\<lparr>timestamp = 0, recommended_temp = 26, predicted_load = 86 / 17\<rparr>,
         \<lparr>timestamp = 0, recommended_temp = 24, predicted_load = 106 / 17\<rparr>]"
    by simp
  have h0: "hvac_consumption (E ! 0) = 86 / 17"
    using hv [rule_format, of 0]
    by (simp add: empty_row_def BuildingEnergyManagement_init_def HVACSystem_init_def
        calculate_load_def Let_def)
  from e t r recs same E h0 show ?thesis by blast
qed

section \<open>Humidity\<close>

lemma same_but_humidity_nth:
  assumes "map (\<lambda>r. r\<lparr>humidity := 0\<rparr>) d1 = map (\<lambda>r. r\<lparr>humidity := 0\<rparr>) d2"
    and "k < length d1"
  shows "timestamp (d1 ! k) = timestamp (d2 ! k) \<and> temperature (d1 ! k) = temperature (d2 ! k)
    \<and> light_level (d1 ! k) = light_level (d2 ! k) \<and> occupancy (d1 ! k) = occupancy (d2 ! k)"
proof -
  have len: "length d1 = length d2"
    using assms(1) by (rule map_eq_imp_length_eq)
  have "map (\<lambda>r. r\<lparr>humidity := 0\<rparr>) d1 ! k = map (\<lambda>r. r\<lparr>humidity := 0\<rparr>) d2 ! k"
    using assms(1) by simp
  then have eq: "(d1 ! k)\<lparr>humidity := 0\<rparr> = (d2 ! k)\<lparr>humidity := 0\<rparr>"
    using assms(2) len by simp
  have "timestamp ((d1 ! k)\<lparr>humidity := 0\<rparr>) = timestamp ((d2 ! k)\<lparr>humidity := 0\<rparr>)"
    "temperature ((d1 ! k)\<lparr>humidity := 0\<rparr>) = temperature ((d2 ! k)\<lparr>humidity := 0\<rparr>)"
    "light_level ((d1 ! k)\<lparr>humidity := 0\<rparr>) = light_level ((d2 ! k)\<lparr>humidity := 0\<rparr>)"
    "occupancy ((d1 ! k)\<lparr>humidity := 0\<rparr>) = occupancy ((d2 ! k)\<lparr>humidity := 0\<rparr>)"
    by (simp_all only: eq)
  then show ?thesis by simp
qed

text \<open>
  C10. Two sensor series that are equal once the humidity column is erased give, under
  the same draws for the base load, the same energy balance, and so the same compliance
  and carbon assessments.
\<close>

theorem humidity_noninterference:
  assumes "map (\<lambda>r. r\<lparr>humidity := 0\<rparr>) d1 = map (\<lambda>r. r\<lparr>humidity := 0\<rparr>) d2"
  shows "calculate_energy_balance b d1 noise = calculate_energy_balance b d2 noise
    \<and> (\<forall>E1 E2. calculate_energy_balance b d1 noise = Inr E1
          \<and> calculate_energy_balance b d2 noise = Inr E2 \<longrightarrow>
        assess_ecbc_compliance sa E1 = assess_ecbc_compliance sa E2
        \<and> calculate_carbon_footprint sa E1 = calculate_carbon_footprint sa E2)"
proof -
  have len: "length d1 = length d2"
    using assms by (rule map_eq_imp_length_eq)
  have eq: "calculate_energy_balance b d1 noise = calculate_energy_balance b d2 noise"
    unfolding energy_balance_explicit Let_def len [symmetric]
    using same_but_humidity_nth [OF assms] by simp
  then show ?thesis by auto
qed

theorem humidity_noninterference_witness:
  "map (\<lambda>r. r\<lparr>humidity := 0\<rparr>) [row0, empty_row]
     = map (\<lambda>r. r\<lparr>humidity := 0\<rparr>) [row0\<lparr>humidity := 35\<rparr>, empty_row\<lparr>humidity := 90\<rparr>]
   \<and> [row0, empty_row] \<noteq> [row0\<lparr>humidity := 35\<rparr>, empty_row\<lparr>humidity := 90\<rparr>]
   \<and> calculate_energy_balance BuildingEnergyManagement_init [row0, empty_row] (\<lambda>k. 0)
     = calculate_energy_balance BuildingEnergyManagement_init
         [row0\<lparr>humidity := 35\<rparr>, empty_row\<lparr>humidity := 90\<rparr>] (\<lambda>k. 0)
   \<and> (\<exists>E1 E2. calculate_energy_balance BuildingEnergyManagement_init [row0, empty_row]
           (\<lambda>k. 0) = Inr E1
        \<and> calculate_energy_balance BuildingEnergyManagement_init
           [row0\<lparr>humidity := 35\<rparr>, empty_row\<lparr>humidity := 90\<rparr>] (\<lambda>k. 0) = Inr E2
        \<and> assess_ecbc_compliance SustainabilityAssessment_init E1
            = assess_ecbc_compliance SustainabilityAssessment_init E2
        \<and> calculate_carbon_footprint SustainabilityAssessment_init E1
            = calculate_carbon_footprint SustainabilityAssessment_init E2)"
proof -
  let ?d1 = "[row0, empty_row]"
  let ?d2 = "[row0\<lparr>humidity := 35\<rparr>, empty_row\<lparr>humidity := 90\<rparr>]"
  let ?b = BuildingEnergyManagement_init
  have h: "map (\<lambda>r. r\<lparr>humidity := 0\<rparr>) ?d1 = map (\<lambda>r. r\<lparr>humidity := 0\<rparr>) ?d2"
    by simp
  have d: "?d1 \<noteq> ?d2"
    by (simp add: row0_def)
  note ni = humidity_noninterference [OF h, of ?b "\<lambda>k. 0" SustainabilityAssessment_init]
  obtain E1 where E1: "calculate_energy_balance ?b ?d1 (\<lambda>k. 0) = Inr E1"
    by (simp add: energy_balance_explicit)
  obtain E2 where E2: "calculate_energy_balance ?b ?d2 (\<lambda>k. 0) = Inr E2"
    by (simp add: energy_balance_explicit)
  from ni E1 E2 have
    "assess_ecbc_compliance SustainabilityAssessment_init E1
       = assess_ecbc_compliance SustainabilityAssessment_init E2
     \<and> calculate_carbon_footprint SustainabilityAssessment_init E1
       = calculate_carbon_footprint SustainabilityAssessment_init E2"
    by blast
  with h d ni E1 E2 show ?thesis by blast
qed

section \<open>Compliance assessment\<close>

text \<open>
  A frame of 336 hourly rows covers two weeks. At 10 kW on every row the assessment
  returns 3360 * 52 = 174720 kWh a year, where the sum scaled by 52 / 2 is 87360.
\<close>

theorem ecbc_two_weeks_counterexample:
  "weeks_in_window two_weeks = 2
   \<and> assess_ecbc_compliance SustainabilityAssessment_init two_weeks =
       Inr \<lparr>annual_consumption_kwh = 174720, epi_kwh_m2_year = 34.944, ecbc_limit = 200,
            compliance = True, savings_potential = 0\<rparr>
   \<and> sum_list (map total_consumption two_weeks) * (52 / weeks_in_window two_weeks) = 87360
   \<and> annual_consumption_kwh
        (projr (assess_ecbc_compliance SustainabilityAssessment_init two_weeks)) \<noteq>
       sum_list (map total_consumption two_weeks) * (52 / weeks_in_window two_weeks)"
  by (simp add: assess_ecbc_compliance_def calculate_epi_def two_weeks_def weeks_in_window_def
      Let_def sum_list_replicate sample_row_def SustainabilityAssessment_init_def)

text \<open>
  C2, as amended. For every balance frame, whatever the window it covers, with building
  area A (not zero) and regulatory limit L, the compliance assessment returns
  annual_consumption = (sum of total_consumption) * 52, energy_performance_index =
  annual_consumption / A, is_compliant if and only if the index is at most L, and
  required_savings = max(0, index - L) * A. With a total of 20000 kWh, A = 5000 and
  L = 200 it returns 1040000 kWh, index 208, not compliant, savings 40000 kWh.
\<close>

theorem assess_ecbc_compliance_formula:
  assumes "building_area sa \<noteq> 0"
  shows "\<exists>r. assess_ecbc_compliance sa energy_data = Inr r
    \<and> annual_consumption_kwh r = sum_list (map total_consumption energy_data) * 52
    \<and> epi_kwh_m2_year r = annual_consumption_kwh r / building_area sa
    \<and> ecbc_limit r = ecbc_epi_limit sa
    \<and> compliance r = (epi_kwh_m2_year r \<le> ecbc_epi_limit sa)
    \<and> savings_potential r = max 0 (epi_kwh_m2_year r - ecbc_epi_limit sa) * building_area sa
    \<and> (sum_list (map total_consumption energy_data) = 20000 \<and> building_area sa = 5000
         \<and> ecbc_epi_limit sa = 200 \<longrightarrow>
        annual_consumption_kwh r = 1040000 \<and> epi_kwh_m2_year r = 208
         \<and> \<not> compliance r \<and> savings_potential r = 40000)"
  by (simp add: assess_ecbc_compliance_def calculate_epi_def Let_def)

theorem assess_ecbc_compliance_formula_witness:
  "building_area SustainabilityAssessment_init \<noteq> 0
   \<and> weeks_in_window one_week = 1
   \<and> sum_list (map total_consumption one_week) = 20000
   \<and> building_area SustainabilityAssessment_init = 5000
   \<and> ecbc_epi_limit SustainabilityAssessment_init = 200
   \<and> assess_ecbc_compliance SustainabilityAssessment_init one_week =
       Inr \<lparr>annual_consumption_kwh = 1040000, epi_kwh_m2_year = 208, ecbc_limit = 200,
            compliance = False, savings_potential = 40000\<rparr>"
proof -
  have a: "building_area SustainabilityAssessment_init \<noteq> 0"
    and b: "building_area SustainabilityAssessment_init = 5000"
    and c: "ecbc_epi_limit SustainabilityAssessment_init = 200"
    by (simp_all add: SustainabilityAssessment_init_def)
  have s: "sum_list (map total_consumption one_week) = 20000"
    by (simp add: one_week_def sample_row_def sum_list_replicate)
  have w: "weeks_in_window one_week = 1"
    by (simp add: weeks_in_window_def one_week_def)
  obtain r where r: "assess_ecbc_compliance SustainabilityAssessment_init one_week = Inr r"
    and v: "annual_consumption_kwh r = 1040000" "epi_kwh_m2_year r = 208"
      "ecbc_limit r = 200" "\<not> compliance r" "savings_potential r = 40000"
    using assess_ecbc_compliance_formula [OF a, of one_week] s b c by auto
  from v have "r = \<lparr>annual_consumption_kwh = 1040000, epi_kwh_m2_year = 208, ecbc_limit = 200,
            compliance = False, savings_potential = 40000\<rparr>"
    by simp
  with a b c s w r show ?thesis by simp
qed

section \<open>Carbon assessment\<close>

text \<open>
  On the two-week frame the net emissions are 2755.2 kg and the annual figure returned is
  143.2704: the net emissions times 52, in tonnes. It is neither the net emissions times
  52 / 2 nor that product in tonnes.
\<close>

theorem carbon_two_weeks_counterexample:
  "weeks_in_window two_weeks = 2
   \<and> calculate_carbon_footprint SustainabilityAssessment_init two_weeks =
       Inr \<lparr>gross_emissions_kg_co2 = 2755.2, carbon_offset_kg_co2 = 0,
            net_emissions_kg_co2 = 2755.2, annual_net_emissions_tonnes = 143.2704\<rparr>
   \<and> annual_net_emissions_tonnes
        (projr (calculate_carbon_footprint SustainabilityAssessment_init two_weeks)) \<noteq>
       net_emissions_kg_co2
        (projr (calculate_carbon_footprint SustainabilityAssessment_init two_weeks))
         * (52 / weeks_in_window two_weeks)
   \<and> annual_net_emissions_tonnes
        (projr (calculate_carbon_footprint SustainabilityAssessment_init two_weeks)) \<noteq>
       net_emissions_kg_co2
        (projr (calculate_carbon_footprint SustainabilityAssessment_init two_weeks))
         * (52 / weeks_in_window two_weeks) / 1000"
  by (simp add: calculate_carbon_footprint_def two_weeks_def weeks_in_window_def Let_def
      sum_list_replicate sample_row_def SustainabilityAssessment_init_def)

text \<open>
  C4, as amended. For every balance frame, whatever the window it covers, with emissions
  factor f, the carbon assessment returns gross_emissions = (sum of grid_import) * f,
  carbon_offset = (sum of grid_export) * f, net_emissions = gross_emissions -
  carbon_offset, and annual net emissions = net_emissions * 52 / 1000, in tonnes: the
  factor 52 of the compliance assessment. With imports of 500 kWh, exports of 100 kWh
  and f = 0.82 it returns 410 kg, 82 kg and 328 kg.
\<close>

theorem calculate_carbon_footprint_formula:
  "\<exists>r c. calculate_carbon_footprint sa energy_data = Inr r
    \<and> gross_emissions_kg_co2 r = sum_list (map grid_import energy_data) * emission_factor sa
    \<and> carbon_offset_kg_co2 r = sum_list (map grid_export energy_data) * emission_factor sa
    \<and> net_emissions_kg_co2 r = gross_emissions_kg_co2 r - carbon_offset_kg_co2 r
    \<and> annual_net_emissions_tonnes r = net_emissions_kg_co2 r * 52 / 1000
    \<and> assess_ecbc_compliance sa energy_data = Inr c
    \<and> annual_consumption_kwh c = sum_list (map total_consumption energy_data) * 52
    \<and> (sum_list (map grid_import energy_data) = 500
         \<and> sum_list (map grid_export energy_data) = 100 \<and> emission_factor sa = 0.82 \<longrightarrow>
        gross_emissions_kg_co2 r = 410 \<and> carbon_offset_kg_co2 r = 82
         \<and> net_emissions_kg_co2 r = 328)"
  by (simp add: calculate_carbon_footprint_def assess_ecbc_compliance_def Let_def)

theorem calculate_carbon_footprint_formula_witness:
  "sum_list (map grid_import import_export) = 500
   \<and> sum_list (map grid_export import_export) = 100
   \<and> emission_factor SustainabilityAssessment_init = 0.82
   \<and> calculate_carbon_footprint SustainabilityAssessment_init import_export =
       Inr \<lparr>gross_emissions_kg_co2 = 410, carbon_offset_kg_co2 = 82,
            net_emissions_kg_co2 = 328, annual_net_emissions_tonnes = 17.056\<rparr>"
proof -
  have i: "sum_list (map grid_import import_export) = 500"
    and e: "sum_list (map grid_export import_export) = 100"
    by (simp_all add: import_export_def sample_row_def sum_list_replicate)
  have f: "emission_factor SustainabilityAssessment_init = 0.82"
    by (simp add: SustainabilityAssessment_init_def)
  obtain r where r: "calculate_carbon_footprint SustainabilityAssessment_init import_export = Inr r"
    and v: "gross_emissions_kg_co2 r = 410" "carbon_offset_kg_co2 r = 82"
      "net_emissions_kg_co2 r = 328"
      "annual_net_emissions_tonnes r = net_emissions_kg_co2 r * 52 / 1000"
    using calculate_carbon_footprint_formula [of SustainabilityAssessment_init import_export]
      i e f by auto
  from v have "r = \<lparr>gross_emissions_kg_co2 = 410, carbon_offset_kg_co2 = 82,
            net_emissions_kg_co2 = 328, annual_net_emissions_tonnes = 17.056\<rparr>"
    by simp
  with i e f r show ?thesis by simp
qed

section \<open>Degenerate input to the assessments\<close>

text \<open>On the empty frame the compliance assessment returns a verdict: compliant.\<close>

theorem assess_empty_counterexample:
  "assess_ecbc_compliance SustainabilityAssessment_init [] =
     Inr \<lparr>annual_consumption_kwh = 0, epi_kwh_m2_year = 0, ecbc_limit = 200,
          compliance = True, savings_potential = 0\<rparr>
   \<and> assess_ecbc_compliance SustainabilityAssessment_init [] \<noteq> Inl InsufficientData"
  by (simp add: assess_ecbc_compliance_def calculate_epi_def SustainabilityAssessment_init_def
      Let_def)

lemma sum_list_all_zero:
  "\<forall>r \<in> set xs. f r = (0::real) \<Longrightarrow> sum_list (map f xs) = 0"
  by (induction xs) simp_all

text \<open>
  C3, as amended. On a frame that is empty or whose total consumption is zero on every
  row, the compliance assessment signals no error: it returns an annual consumption and
  an index of 0, compliant exactly when the limit is not negative. On a frame with no
  grid exchange the carbon assessment returns zero emissions. On a series of length 1
  the aggregator returns a frame of one row and both assessments return on it.
\<close>

theorem assessor_returns_on_degenerate_input:
  assumes "building_area sa \<noteq> 0" and "efficiency (hvac b) \<noteq> 0"
    and "daylight_threshold (lighting b) \<noteq> 0"
  shows "((\<forall>r \<in> set energy_data. total_consumption r = 0) \<longrightarrow>
            assess_ecbc_compliance sa energy_data =
              Inr \<lparr>annual_consumption_kwh = 0, epi_kwh_m2_year = 0,
                   ecbc_limit = ecbc_epi_limit sa, compliance = (0 \<le> ecbc_epi_limit sa),
                   savings_potential = max 0 (0 - ecbc_epi_limit sa) * building_area sa\<rparr>)
    \<and> ((\<forall>r \<in> set energy_data. grid_import r = 0 \<and> grid_export r = 0) \<longrightarrow>
            calculate_carbon_footprint sa energy_data =
              Inr \<lparr>gross_emissions_kg_co2 = 0, carbon_offset_kg_co2 = 0,
                   net_emissions_kg_co2 = 0, annual_net_emissions_tonnes = 0\<rparr>)
    \<and> (\<exists>E c f. calculate_energy_balance b [row] noise = Inr E \<and> length E = 1
          \<and> assess_ecbc_compliance sa E = Inr c \<and> calculate_carbon_footprint sa E = Inr f)"
proof -
  have 1: "assess_ecbc_compliance sa energy_data =
              Inr \<lparr>annual_consumption_kwh = 0, epi_kwh_m2_year = 0,
                   ecbc_limit = ecbc_epi_limit sa, compliance = (0 \<le> ecbc_epi_limit sa),
                   savings_potential = max 0 (0 - ecbc_epi_limit sa) * building_area sa\<rparr>"
    if "\<forall>r \<in> set energy_data. total_consumption r = 0"
    using sum_list_all_zero [OF that]
    by (simp add: assess_ecbc_compliance_def calculate_epi_def Let_def)
  have 2: "calculate_carbon_footprint sa energy_data =
              Inr \<lparr>gross_emissions_kg_co2 = 0, carbon_offset_kg_co2 = 0,
                   net_emissions_kg_co2 = 0, annual_net_emissions_tonnes = 0\<rparr>"
    if "\<forall>r \<in> set energy_data. grid_import r = 0 \<and> grid_export r = 0"
  proof -
    have "sum_list (map grid_import energy_data) = 0" "sum_list (map grid_export energy_data) = 0"
      using that by (simp_all add: sum_list_all_zero)
    then show ?thesis by (simp add: calculate_carbon_footprint_def Let_def)
  qed
  have 3: "\<exists>E c f. calculate_energy_balance b [row] noise = Inr E \<and> length E = 1
          \<and> assess_ecbc_compliance sa E = Inr c \<and> calculate_carbon_footprint sa E = Inr f"
    by (simp add: energy_balance_explicit assess_ecbc_compliance_def
        calculate_carbon_footprint_def Let_def)
  from 1 2 3 show ?thesis by blast
qed

theorem assessor_returns_on_degenerate_input_witness:
  "building_area SustainabilityAssessment_init \<noteq> 0
   \<and> efficiency (hvac BuildingEnergyManagement_init) \<noteq> 0
   \<and> daylight_threshold (lighting BuildingEnergyManagement_init) \<noteq> 0
   \<and> total_consumption zero_row = 0 \<and> grid_import zero_row = 0 \<and> grid_export zero_row = 0
   \<and> assess_ecbc_compliance SustainabilityAssessment_init [zero_row, zero_row] =
       Inr \<lparr>annual_consumption_kwh = 0, epi_kwh_m2_year = 0, ecbc_limit = 200,
            compliance = True, savings_potential = 0\<rparr>
   \<and> calculate_carbon_footprint SustainabilityAssessment_init [zero_row, zero_row] =
       Inr \<lparr>gross_emissions_kg_co2 = 0, carbon_offset_kg_co2 = 0,
            net_emissions_kg_co2 = 0, annual_net_emissions_tonnes = 0\<rparr>
   \<and> (\<exists>E c f. calculate_energy_balance BuildingEnergyManagement_init [row0] (\<lambda>k. 0) = Inr E
        \<and> length E = 1
        \<and> assess_ecbc_compliance SustainabilityAssessment_init E = Inr c
        \<and> calculate_carbon_footprint SustainabilityAssessment_init E = Inr f)"
proof -
  have a: "building_area SustainabilityAssessment_init \<noteq> 0"
    by (simp add: SustainabilityAssessment_init_def)
  have e: "efficiency (hvac BuildingEnergyManagement_init) \<noteq> 0"
    by (simp add: BuildingEnergyManagement_init_def HVACSystem_init_def)
  have t: "daylight_threshold (lighting BuildingEnergyManagement_init) \<noteq> 0"
    by (simp add: BuildingEnergyManagement_init_def LightingSystem_init_def)
  have z: "total_consumption zero_row = 0" "grid_import zero_row = 0" "grid_export zero_row = 0"
    by (simp_all add: zero_row_def)
  have l: "ecbc_epi_limit SustainabilityAssessment_init = 200"
    by (simp add: SustainabilityAssessment_init_def)
  show ?thesis
    using assessor_returns_on_degenerate_input
      [OF a e t, of "[zero_row, zero_row]" row0 "\<lambda>k. 0"] a e t z l
    by simp
qed

section \<open>Sensor data\<close>

subsection \<open>The timestamps\<close>

lemma collect_all_Inr:
  "(\<forall>x \<in> set xs. f x = Inr (g x)) \<Longrightarrow> collect (map f xs) = Inr (map g xs)"
  by (induction xs) simp_all

lemma collect_first_Inl:
  "0 < n \<Longrightarrow> f 0 = Inl e \<Longrightarrow> collect (map f [0..<n]) = Inl e"
  by (simp add: upt_conv_Cons)

lemma collect_Inl:
  "collect xs = Inl e \<Longrightarrow> Inl e \<in> set xs"
  by (induction xs rule: collect.induct) (auto split: sum.splits)

lemma collect_Inr:
  "collect xs = Inr vs \<Longrightarrow> xs = map Inr vs"
  by (induction xs arbitrary: vs rule: collect.induct) (auto split: sum.splits)

lemma stamp_Inl:
  "stamp src k i = Inl e \<Longrightarrow> e = OverflowError"
  by (auto simp: stamp_def timedelta_hours_def datetime_sub_def split: if_splits)

lemma stamp_Inr:
  "stamp src k i = Inr t \<Longrightarrow> t = now src k - i * hour_us"
  by (auto simp: stamp_def timedelta_hours_def datetime_sub_def split: if_splits)

lemma stamp_in_range:
  assumes "in_range src hours" and "k < nat hours"
  shows "stamp src k (hours - int k) = Inr (now src k - (hours - int k) * hour_us)"
proof -
  have b: "(hours - int k) * hour_us \<le> now src k" "now src k < datetime_span"
    using assms by (auto simp: in_range_def)
  have pos: "0 < hours - int k" using assms(2) by linarith
  have "(hours - int k) * hour_us < datetime_span" using b by linarith
  then have small: "hours - int k < 87649416"
    by (simp add: hour_us_def datetime_span_def)
  have "(hours - int k) div 24 < hours - int k"
    using pos by (simp add: int_div_less_self)
  moreover have "0 \<le> (hours - int k) div 24"
    using pos by (simp add: pos_imp_zdiv_nonneg_iff)
  ultimately have d: "\<not> (hours - int k) div 24 < - 999999999"
    "\<not> 999999999 < (hours - int k) div 24"
    using small by linarith+
  have "0 < (hours - int k) * hour_us" using pos by (simp add: hour_us_def)
  then have "now src k - (hours - int k) * hour_us < datetime_span" using b by linarith
  then show ?thesis
    using d b by (simp add: stamp_def timedelta_hours_def datetime_sub_def)
qed

lemma clock_ok_in_range:
  assumes "clock_ok src (nat hours)" and "hours * hour_us \<le> now src 0"
  shows "in_range src hours"
  unfolding in_range_def
proof (intro allI impI)
  fix k
  assume k: "k < nat hours"
  then have c: "now src 0 \<le> now src k" "now src k < datetime_span"
    using assms(1) by (auto simp: clock_ok_def)
  have "(hours - int k) * hour_us \<le> hours * hour_us"
    by (simp add: hour_us_def)
  with c assms(2) show "(hours - int k) * hour_us \<le> now src k \<and> now src k < datetime_span"
    by linarith
qed

lemma calm_clock_ok: "n \<le> 1000000 \<Longrightarrow> clock_ok calm_draws n"
  by (auto simp: clock_ok_def calm_draws_def datetime_span_def)

lemma dark_in_range: "in_range dark_draws 24"
proof (rule clock_ok_in_range)
  show "clock_ok dark_draws (nat 24)"
    using calm_clock_ok [of 24] by (simp add: clock_ok_def dark_draws_def)
  show "24 * hour_us \<le> now dark_draws 0"
    by (simp add: dark_draws_def calm_draws_def hour_us_def)
qed

subsection \<open>The series\<close>

text \<open>The series returned by the generator, row by row, when it returns one.\<close>

lemma generate_Inr_explicit:
  assumes "generate_realistic_data src hours = Inr s"
  shows "s = map (\<lambda>k. \<lparr>timestamp = now src k - (hours - int k) * hour_us,
            temperature = 25 + 5 * sin (2 * pi * real k / 24) + temp_noise src k,
            humidity = 60 - (25 + 5 * sin (2 * pi * real k / 24) + temp_noise src k - 25)
                         + humidity_noise src k,
            light_level = (if k mod 24 < 12
                     then max 0 (800 * sin (pi * real k / 12) + light_draw src k)
                     else light_draw src k),
            energy_consumption = 2 + 3 * sin (2 * pi * real k / 24) + energy_noise src k,
            occupancy = (if 8 \<le> k mod 24 \<and> k mod 24 \<le> 18
                     then max 0 (int_py (office_curve src (k mod 24)))
                     else int (poisson_draw src k))\<rparr>) [0..<nat hours]"
proof -
  let ?stamps = "map (\<lambda>k. stamp src k (hours - int k)) [0..<nat hours]"
  obtain ts where ts: "collect ?stamps = Inr ts"
    using assms unfolding generate_realistic_data_def Let_def
    by (cases "collect ?stamps") simp_all
  then have m: "?stamps = map Inr ts" by (rule collect_Inr)
  have len: "length ts = nat hours"
    using map_eq_imp_length_eq [OF m] by simp
  have nth: "ts ! k = now src k - (hours - int k) * hour_us" if "k < nat hours" for k
  proof -
    have "?stamps ! k = map Inr ts ! k" using m by simp
    then have "stamp src k (hours - int k) = Inr (ts ! k)"
      using that len by simp
    then show ?thesis by (rule stamp_Inr)
  qed
  have "s = projr (generate_realistic_data src hours)" using assms by simp
  then show ?thesis
    unfolding generate_realistic_data_def Let_def ts
    by (simp add: nth cong: map_cong)
qed

text \<open>It returns one whenever every timestamp is a datetime.\<close>

lemma generate_explicit:
  assumes "in_range src hours"
  shows "generate_realistic_data src hours =
     Inr (map (\<lambda>k. \<lparr>timestamp = now src k - (hours - int k) * hour_us,
            temperature = 25 + 5 * sin (2 * pi * real k / 24) + temp_noise src k,
            humidity = 60 - (25 + 5 * sin (2 * pi * real k / 24) + temp_noise src k - 25)
                         + humidity_noise src k,
            light_level = (if k mod 24 < 12
                     then max 0 (800 * sin (pi * real k / 12) + light_draw src k)
                     else light_draw src k),
            energy_consumption = 2 + 3 * sin (2 * pi * real k / 24) + energy_noise src k,
            occupancy = (if 8 \<le> k mod 24 \<and> k mod 24 \<le> 18
                     then max 0 (int_py (office_curve src (k mod 24)))
                     else int (poisson_draw src k))\<rparr>) [0..<nat hours])"
proof -
  have c: "collect (map (\<lambda>k. stamp src k (hours - int k)) [0..<nat hours])
         = Inr (map (\<lambda>k. now src k - (hours - int k) * hour_us) [0..<nat hours])"
    by (rule collect_all_Inr) (simp add: stamp_in_range [OF assms])
  show ?thesis
    unfolding generate_realistic_data_def Let_def c
    by (simp cong: map_cong)
qed

text \<open>It raises when the first timestamp, the earliest, falls before \<^verbatim>\<open>datetime.min\<close>.\<close>

lemma generate_overflow:
  assumes "0 < hours" and "now src 0 < hours * hour_us"
  shows "generate_realistic_data src hours = Inl OverflowError"
proof -
  have f: "stamp src 0 (hours - int 0) = Inl OverflowError"
    using assms(2) by (simp add: stamp_def timedelta_hours_def datetime_sub_def)
  have n: "0 < nat hours" using assms(1) by simp
  have "collect (map (\<lambda>k. stamp src k (hours - int k)) [0..<nat hours]) = Inl OverflowError"
    using collect_first_Inl [where f = "\<lambda>k. stamp src k (hours - int k)", OF n f] .
  then show ?thesis
    unfolding generate_realistic_data_def Let_def by simp
qed

text \<open>It raises nothing but \<^verbatim>\<open>OverflowError\<close>.\<close>

lemma generate_Inl:
  assumes "generate_realistic_data src hours = Inl e"
  shows "e = OverflowError"
proof -
  let ?stamps = "map (\<lambda>k. stamp src k (hours - int k)) [0..<nat hours]"
  have "collect ?stamps = Inl e"
    using assms unfolding generate_realistic_data_def Let_def
    by (cases "collect ?stamps") simp_all
  then have "Inl e \<in> set ?stamps" by (rule collect_Inl)
  then obtain k where "stamp src k (hours - int k) = Inl e" by auto
  then show ?thesis by (rule stamp_Inl)
qed

text \<open>
  What holds of every generated series: its length, the occupancy, the light level by
  day, and the step between two timestamps, which is one hour plus the time the clock
  advanced between the two readings. By night the light level is the draw itself.
\<close>

lemma generate_rows:
  assumes "generate_realistic_data src hours = Inr s" and "k < length s"
  shows "int (length s) = max 0 hours"
    and "0 \<le> occupancy (s ! k)"
    and "k mod 24 < 12 \<Longrightarrow> 0 \<le> light_level (s ! k)"
    and "12 \<le> k mod 24 \<Longrightarrow> light_level (s ! k) = light_draw src k"
    and "Suc k < length s \<Longrightarrow>
           timestamp (s ! Suc k) - timestamp (s ! k) = hour_us + (now src (Suc k) - now src k)"
proof -
  note s = generate_Inr_explicit [OF assms(1)]
  have len: "length s = nat hours" by (subst s) simp
  then show "int (length s) = max 0 hours" by simp
  have k: "k < nat hours" using assms(2) len by simp
  show "0 \<le> occupancy (s ! k)"
    by (subst s) (use k in simp)
  show "0 \<le> light_level (s ! k)" if "k mod 24 < 12"
    by (subst s) (use k that in simp)
  show "light_level (s ! k) = light_draw src k" if "12 \<le> k mod 24"
    by (subst s) (use k that in simp)
  show "timestamp (s ! Suc k) - timestamp (s ! k) = hour_us + (now src (Suc k) - now src k)"
    if "Suc k < length s"
  proof -
    have k': "Suc k < nat hours" using that len by simp
    have "timestamp (s ! Suc k) = now src (Suc k) - (hours - int (Suc k)) * hour_us"
      by (subst s) (use k' in simp)
    moreover have "timestamp (s ! k) = now src k - (hours - int k) * hour_us"
      by (subst s) (use k in simp)
    ultimately show ?thesis by (simp add: algebra_simps)
  qed
qed

text \<open>
  At hour 10 the office curve is 10 over the reals and 9.999999999999998 in doubles: the
  occupancy of the calm series there is 9.
\<close>

lemma calm_occupancy_hour_10:
  "occupancy (projr (generate_realistic_data calm_draws 24) ! 10) = 9"
proof -
  have "in_range calm_draws 24"
    by (rule clock_ok_in_range)
      (use calm_clock_ok [of 24] in \<open>simp_all add: calm_draws_def hour_us_def\<close>)
  then have e: "generate_realistic_data calm_draws 24 =
      Inr (projr (generate_realistic_data calm_draws 24))"
    by (simp add: generate_explicit)
  have "occupancy (projr (generate_realistic_data calm_draws 24) ! 10)
      = max 0 (int_py (office_curve calm_draws 10))"
    by (subst generate_Inr_explicit [OF e]) simp
  then show ?thesis
    by (simp add: calm_draws_def int_py_def)
qed

text \<open>
  C5. On a horizon of 24 hours, with a night draw of -1 at hour 12, the series has 24
  rows and the light level of row 12 is -1: the clamp at 0 of the daytime branch is not
  applied by night. With a clock that advances by a microsecond between two readings,
  rows 0 and 1 are one hour and one microsecond apart.
\<close>

theorem generate_night_light_negative:
  "length (projr (generate_realistic_data dark_draws 24)) = 24
   \<and> light_level (projr (generate_realistic_data dark_draws 24) ! 12) = - 1
   \<and> timestamp (projr (generate_realistic_data dark_draws 24) ! 1)
       - timestamp (projr (generate_realistic_data dark_draws 24) ! 0) = hour_us + 1"
  unfolding generate_explicit [OF dark_in_range]
  by (simp add: dark_draws_def calm_draws_def)

text \<open>
  For a horizon of 0 or below the generator returns the empty series; for a horizon of
  twenty million hours, which reaches back before year 1, it raises \<^verbatim>\<open>OverflowError\<close>.
\<close>

theorem generate_nonpositive_counterexample:
  "generate_realistic_data calm_draws 0 = Inr []
   \<and> generate_realistic_data calm_draws (- 5) = Inr []
   \<and> generate_realistic_data calm_draws 0 \<noteq> Inl InvalidArgument
   \<and> generate_realistic_data calm_draws 20000000 = Inl OverflowError"
proof -
  have "generate_realistic_data calm_draws 20000000 = Inl OverflowError"
    by (rule generate_overflow) (simp_all add: calm_draws_def hour_us_def)
  then show ?thesis
    by (simp add: generate_realistic_data_def)
qed

text \<open>
  C8, as amended. The generator never signals an invalid-argument error. For every
  horizon of 0 or below it returns the empty series. For a positive horizon H, read on a
  clock whose readings are datetimes none of which is before the first, it returns a
  series of H rows when the first reading less H hours is a datetime, that is not before
  \<^verbatim>\<open>datetime.min\<close>, and it raises \<^verbatim>\<open>OverflowError\<close> otherwise.
\<close>

theorem generate_never_raises:
  "generate_realistic_data src hours \<noteq> Inl InvalidArgument
   \<and> (hours \<le> 0 \<longrightarrow> generate_realistic_data src hours = Inr [])
   \<and> (0 < hours \<and> clock_ok src (nat hours) \<and> hours * hour_us \<le> now src 0 \<longrightarrow>
        (\<exists>s. generate_realistic_data src hours = Inr s \<and> int (length s) = hours))
   \<and> (0 < hours \<and> now src 0 < hours * hour_us \<longrightarrow>
        generate_realistic_data src hours = Inl OverflowError)"
proof -
  have 1: "generate_realistic_data src hours \<noteq> Inl InvalidArgument"
    using generate_Inl [of src hours InvalidArgument] by auto
  have 2: "generate_realistic_data src hours = Inr []" if "hours \<le> 0"
    using that by (simp add: generate_realistic_data_def)
  have 3: "\<exists>s. generate_realistic_data src hours = Inr s \<and> int (length s) = hours"
    if "0 < hours" "clock_ok src (nat hours)" "hours * hour_us \<le> now src 0"
    using that by (simp add: generate_explicit [OF clock_ok_in_range])
  have 4: "generate_realistic_data src hours = Inl OverflowError"
    if "0 < hours" "now src 0 < hours * hour_us"
    using that by (rule generate_overflow)
  from 1 2 3 4 show ?thesis by blast
qed

theorem generate_never_raises_witness:
  "(0::int) \<le> 0 \<and> (0::int) < 168 \<and> clock_ok calm_draws (nat 168)
   \<and> 168 * hour_us \<le> now calm_draws 0
   \<and> (0::int) < 20000000 \<and> now calm_draws 0 < 20000000 * hour_us
   \<and> generate_realistic_data calm_draws 0 = Inr []
   \<and> (\<exists>s. generate_realistic_data calm_draws 168 = Inr s \<and> int (length s) = 168)
   \<and> generate_realistic_data calm_draws 20000000 = Inl OverflowError"
proof -
  have c: "clock_ok calm_draws (nat 168)"
    by (rule calm_clock_ok) simp
  have b: "168 * hour_us \<le> now calm_draws 0" "now calm_draws 0 < 20000000 * hour_us"
    by (simp_all add: calm_draws_def hour_us_def)
  show ?thesis
    using generate_never_raises [of calm_draws 0] generate_never_raises [of calm_draws 168]
      generate_never_raises [of calm_draws 20000000] c b
    by simp
qed

end
